theory Spec2Isabelle
  imports Main
begin

section \<open>Text\<close>

text \<open>
  A Python \<open>str\<close> is a sequence of code points; a code point is a natural number.
  \<open>lit\<close> turns an ASCII literal into such a sequence.
\<close>

type_synonym str = "nat list"

definition lit :: "string \<Rightarrow> str" where
  "lit s = map of_char s"

text \<open>\<open>str.isspace\<close> on one code point; the class \<open>\s\<close> of \<open>re\<close> on \<open>str\<close> patterns is the same set.\<close>

definition isspace :: "nat \<Rightarrow> bool" where
  "isspace c \<longleftrightarrow>
     (9 \<le> c \<and> c \<le> 13) \<or> (28 \<le> c \<and> c \<le> 32) \<or> c = 133 \<or> c = 160 \<or> c = 5760 \<or>
     (8192 \<le> c \<and> c \<le> 8202) \<or> c = 8232 \<or> c = 8233 \<or> c = 8239 \<or> c = 8287 \<or> c = 12288"

text \<open>The line boundaries of \<open>str.splitlines\<close>; CR LF counts as one boundary.\<close>

definition is_linebreak :: "nat \<Rightarrow> bool" where
  "is_linebreak c \<longleftrightarrow>
     (10 \<le> c \<and> c \<le> 13) \<or> (28 \<le> c \<and> c \<le> 30) \<or> c = 133 \<or> c = 8232 \<or> c = 8233"

text \<open>\<open>s.strip()\<close>\<close>

definition strip :: "str \<Rightarrow> str" where
  "strip s = rev (dropWhile isspace (rev (dropWhile isspace s)))"

text \<open>
  \<open>s.encode("utf-8")\<close> raises \<open>UnicodeEncodeError\<close> exactly when \<open>s\<close> holds a surrogate code
  point (U+D800 to U+DFFF).
\<close>

definition has_surrogate :: "str \<Rightarrow> bool" where
  "has_surrogate s \<longleftrightarrow> list_ex (\<lambda>c. 55296 \<le> c \<and> c \<le> 57343) s"

text \<open>
  \<open>s.splitlines()\<close>: \<open>cur\<close> is the line read so far. A boundary closes the line; text after
  the last boundary is a line only when it is not empty.
\<close>

fun splitlines_from :: "str \<Rightarrow> str \<Rightarrow> str list" where
  "splitlines_from cur [] = (if cur = [] then [] else [cur])"
| "splitlines_from cur [c] = (if is_linebreak c then [cur] else [cur @ [c]])"
| "splitlines_from cur (c # d # cs) =
     (if c = 13 \<and> d = 10 then cur # splitlines_from [] cs
      else if is_linebreak c then cur # splitlines_from [] (d # cs)
      else splitlines_from (cur @ [c]) (d # cs))"

definition splitlines :: "str \<Rightarrow> str list" where
  "splitlines s = splitlines_from [] s"

text \<open>\<open>sep.join(xs)\<close>\<close>

fun str_join :: "str \<Rightarrow> str list \<Rightarrow> str" where
  "str_join sep [] = []"
| "str_join sep [x] = x"
| "str_join sep (x # y # ys) = x @ sep @ str_join sep (y # ys)"

text \<open>
  \<open>s.replace(old, new)\<close>: every occurrence of \<open>old\<close>, found from the left and not overlapping,
  becomes \<open>new\<close>; an empty \<open>old\<close> matches before every code point and at the end.
\<close>

function replace :: "str \<Rightarrow> str \<Rightarrow> str \<Rightarrow> str" where
  "replace [] old new = (if old = [] then new else [])"
| "replace (c # cs) old new =
     (if old = [] then new @ c # replace cs old new
      else if take (length old) (c # cs) = old
           then new @ replace (drop (length old) (c # cs)) old new
           else c # replace cs old new)"
  by pat_completeness auto
termination
  by (relation "measure (\<lambda>(s, old, new). length s)") auto

text \<open>
  \<open>re.sub(r"\s+\n", "\n", text)\<close>. The pattern is fixed: a match starts at a whitespace code
  point, \<open>\s+\<close> is greedy and backtracks to the last line feed of the whitespace run that
  follows, and the search goes on after the match. \<open>last_lf run\<close> is the position of the last
  line feed of \<open>run\<close>.
\<close>

fun last_lf :: "str \<Rightarrow> nat option" where
  "last_lf [] = None"
| "last_lf (c # cs) =
     (case last_lf cs of
        Some k \<Rightarrow> Some (Suc k)
      | None \<Rightarrow> if c = 10 then Some 0 else None)"

function sub_ws_newline :: "str \<Rightarrow> str" where
  "sub_ws_newline [] = []"
| "sub_ws_newline (c # cs) =
     (if isspace c then
        (case last_lf (takeWhile isspace cs) of
           Some k \<Rightarrow> 10 # sub_ws_newline (drop (Suc k) cs)
         | None \<Rightarrow> c # sub_ws_newline cs)
      else c # sub_ws_newline cs)"
  by pat_completeness auto
termination
  by (relation "measure length") auto

section \<open>Exceptions\<close>

text \<open>
  The exceptions a run can end with: the failed \<open>assert\<close> of \<open>main\<close>, a failure of
  \<open>requests\<close> to get a response (connection, timeout), the \<open>HTTPError\<close> of
  \<open>raise_for_status\<close> with the status, \<open>re.error\<close>, the refusal of a selector by
  \<open>select_one\<close>, the \<open>AttributeError\<close> of \<open>None.encode\<close>, the \<open>UnicodeEncodeError\<close> of
  \<open>str.encode\<close>, the \<open>OverflowError\<close> of \<open>re\<close> on a repetition count that is too large, and
  any other exception of a library.
\<close>

datatype exn =
    AssertionError
  | RequestException
  | HTTPError nat
  | ReError
  | SelectorSyntaxError
  | AttributeError
  | UnicodeEncodeError
  | OverflowError
  | OtherError

section \<open>Configuration, state, and the outside world\<close>

text \<open>The module's globals, read from the environment when the module is loaded.\<close>

record config =
  TARGET_URL :: "str option"
  CSS_SELECTOR :: str
  IGNORE_REGEX :: str
  USER_AGENT :: str
  NTFY_SERVER :: str
  NTFY_TOPIC :: str
  NOTIFY_TEMPLATE :: str
  NOTIFY_PREFIX :: str
  NOTIFY_TITLE :: str

text \<open>The dictionary of \<open>state.json\<close>; \<open>None\<close> is JSON \<open>null\<close>.\<close>

record monitor_state =
  last_hash :: "str option"
  last_excerpt :: str
  updated_at :: "int option"
  etag :: "str option"
  last_modified :: "str option"
  last_ok_run :: "int option"

record response =
  status_code :: nat
  headers :: "str \<rightharpoonup> str"
  resp_text :: str

text \<open>
  The libraries the module calls, as functions:
  \<^item> \<open>soup_get_text html\<close> is \<open>BeautifulSoup(html, "html.parser").get_text(separator="\n", strip=True)\<close>;
  \<^item> \<open>soup_select_one html sel\<close> is \<open>select_one(sel)\<close> on that soup followed by the same
    \<open>get_text\<close> on the node: \<open>Inr None\<close> when nothing matches, \<open>Inl\<close> when the selector is refused;
  \<^item> \<open>re_sub pattern repl s\<close> is \<open>re.sub\<close>, \<open>Inl ReError\<close> when it raises \<open>re.error\<close>;
  \<^item> \<open>hashlib_sha256 s\<close> is \<open>hashlib.sha256(b).hexdigest()\<close> on the UTF-8 encoding \<open>b\<close> of \<open>s\<close>;
  \<^item> \<open>unified_diff a b n\<close> is \<open>list(difflib.unified_diff(a, b, lineterm="", n=n))\<close>.
\<close>

record lib =
  soup_get_text :: "str \<Rightarrow> str"
  soup_select_one :: "str \<Rightarrow> str \<Rightarrow> exn + str option"
  re_sub :: "str \<Rightarrow> str \<Rightarrow> str \<Rightarrow> exn + str"
  hashlib_sha256 :: "str \<Rightarrow> str"
  unified_diff :: "str list \<Rightarrow> str list \<Rightarrow> nat \<Rightarrow> str list"

text \<open>
  What one run meets outside the process: the answer of the network to the GET and to the
  POST (\<open>Inl\<close> when \<open>requests\<close> raises), and the readings of the clock: the formatted local
  time of \<open>build_message\<close>, \<open>int(time.time())\<close> where \<open>updated_at\<close> is set, and
  \<open>int(time.time())\<close> where \<open>last_ok_run\<close> is set.
\<close>

record env =
  http_get :: "str \<Rightarrow> (str \<times> str) list \<Rightarrow> exn + response"
  http_post :: "str \<Rightarrow> (str \<times> str) list \<Rightarrow> str \<Rightarrow> exn + response"
  strftime_now :: str
  time_changed :: int
  time_done :: int

text \<open>
  What a run leaves behind: the state file (\<open>None\<close> while it does not exist) and the POST
  requests issued, each with its URL, headers and body.
\<close>

record world =
  state_file :: "monitor_state option"
  outbox :: "(str \<times> (str \<times> str) list \<times> str) list"

section \<open>The module\<close>

definition default_state :: monitor_state where
  "default_state =
     \<lparr>last_hash = None, last_excerpt = [], updated_at = None,
      etag = None, last_modified = None, last_ok_run = None\<rparr>"

definition load_state :: "world \<Rightarrow> monitor_state" where
  "load_state w = (case state_file w of Some s \<Rightarrow> s | None \<Rightarrow> default_state)"

definition save_state :: "monitor_state \<Rightarrow> world \<Rightarrow> world" where
  "save_state state w = w\<lparr>state_file := Some state\<rparr>"

text \<open>
  The \<open>try\<close> block of \<open>send_ntfy\<close> passes on every exception: the one of \<open>text.encode\<close>, raised
  before the POST is issued, and any of the POST.
\<close>

definition send_ntfy :: "config \<Rightarrow> env \<Rightarrow> str \<Rightarrow> str \<Rightarrow> world \<Rightarrow> world" where
  "send_ntfy cfg en title txt w =
     (if NTFY_TOPIC cfg = [] then w
      else
        let url = NTFY_SERVER cfg @ lit ''/'' @ NTFY_TOPIC cfg;
            hdrs = [(lit ''Title'', title), (lit ''Tags'', lit ''bell''), (lit ''Priority'', lit ''4'')]
        in if has_surrogate txt then w
           else
             let w' = w\<lparr>outbox := outbox w @ [(url, hdrs, txt)]\<rparr>
             in (case http_post en url hdrs txt of
                   Inl e \<Rightarrow> w'
                 | Inr resp \<Rightarrow> w'))"

definition build_message :: "config \<Rightarrow> env \<Rightarrow> str \<Rightarrow> str \<Rightarrow> str" where
  "build_message cfg en url diff_block =
     (let now = strftime_now en in
      if NOTIFY_TEMPLATE cfg \<noteq> [] then
        replace (replace (replace (NOTIFY_TEMPLATE cfg) (lit ''{URL}'') url)
                   (lit ''{TIME}'') now)
          (lit ''{DIFF}'') diff_block
      else
        NOTIFY_PREFIX cfg @ [10] @
        lit ''URL: '' @ url @ [10] @
        lit ''Zeit: '' @ now @ [10, 10] @
        lit ''*Kurzdiff:*'' @ [10] @ lit ''```'' @ [10] @ diff_block @ [10] @ lit ''```'')"

text \<open>\<open>Response.raise_for_status\<close> of \<open>requests\<close>: a 4xx or 5xx status raises.\<close>

definition raise_for_status :: "response \<Rightarrow> exn + unit" where
  "raise_for_status resp =
     (if 400 \<le> status_code resp \<and> status_code resp < 600
      then Inl (HTTPError (status_code resp)) else Inr ())"

text \<open>The request headers of \<open>fetch_content\<close>; an absent or empty validator is not sent.\<close>

definition request_headers :: "config \<Rightarrow> str option \<Rightarrow> str option \<Rightarrow> (str \<times> str) list" where
  "request_headers cfg etg lm =
     [(lit ''User-Agent'', USER_AGENT cfg)]
     @ (case etg of Some e \<Rightarrow> if e \<noteq> [] then [(lit ''If-None-Match'', e)] else [] | None \<Rightarrow> [])
     @ (case lm of Some m \<Rightarrow> if m \<noteq> [] then [(lit ''If-Modified-Since'', m)] else [] | None \<Rightarrow> [])"

text \<open>Lines 75 to 81 of \<open>fetch_content\<close>: the text of the selected node, or of the whole page.\<close>

definition select_text :: "config \<Rightarrow> lib \<Rightarrow> str \<Rightarrow> exn + str" where
  "select_text cfg lb html =
     (if CSS_SELECTOR cfg \<noteq> [] then
        (case soup_select_one lb html (CSS_SELECTOR cfg) of
           Inl e \<Rightarrow> Inl e
         | Inr (Some t) \<Rightarrow> Inr t
         | Inr None \<Rightarrow> Inr (soup_get_text lb html))
      else Inr (soup_get_text lb html))"

text \<open>Lines 83 to 87: only \<open>re.error\<close> is caught.\<close>

definition remove_ignored :: "config \<Rightarrow> lib \<Rightarrow> str \<Rightarrow> exn + str" where
  "remove_ignored cfg lb txt =
     (if IGNORE_REGEX cfg \<noteq> [] then
        (case re_sub lb (IGNORE_REGEX cfg) [] txt of
           Inr t \<Rightarrow> Inr t
         | Inl e \<Rightarrow> if e = ReError then Inr txt else Inl e)
      else Inr txt)"

definition fetch_content ::
  "config \<Rightarrow> lib \<Rightarrow> env \<Rightarrow> str \<Rightarrow> str option \<Rightarrow> str option
     \<Rightarrow> exn + (str option \<times> str option \<times> str option \<times> bool)" where
  "fetch_content cfg lb en url etg lm =
     (case http_get en url (request_headers cfg etg lm) of
        Inl e \<Rightarrow> Inl e
      | Inr resp \<Rightarrow>
          if status_code resp = 304 then Inr (None, etg, lm, True)
          else
            (case raise_for_status resp of
               Inl e \<Rightarrow> Inl e
             | Inr u \<Rightarrow>
                 let etag_new = (case headers resp (lit ''ETag'') of Some v \<Rightarrow> Some v | None \<Rightarrow> etg);
                     lm_new = (case headers resp (lit ''Last-Modified'') of Some v \<Rightarrow> Some v | None \<Rightarrow> lm)
                 in (case select_text cfg lb (resp_text resp) of
                       Inl e \<Rightarrow> Inl e
                     | Inr txt \<Rightarrow>
                         (case remove_ignored cfg lb txt of
                            Inl e \<Rightarrow> Inl e
                          | Inr txt' \<Rightarrow>
                              Inr (Some (strip (sub_ws_newline txt')), etag_new, lm_new, False)))))"

text \<open>\<open>sha256\<close>: the encoding comes first, and it raises on a surrogate.\<close>

definition sha256 :: "lib \<Rightarrow> str \<Rightarrow> exn + str" where
  "sha256 lb s = (if has_surrogate s then Inl UnicodeEncodeError else Inr (hashlib_sha256 lb s))"

text \<open>The placeholder \<open>"(Inhalt ge\<dots>ndert)"\<close>; 228 is a with diaeresis.\<close>

definition placeholder :: str where
  "placeholder = lit ''(Inhalt ge'' @ [228] @ lit ''ndert)''"

text \<open>Lines 112 to 115 of \<open>main\<close>.\<close>

definition pretty_diff :: "lib \<Rightarrow> str \<Rightarrow> str \<Rightarrow> str" where
  "pretty_diff lb excerpt content =
     (let old = splitlines excerpt;
          new = splitlines content;
          diff_lines = unified_diff lb old new 5
      in if diff_lines \<noteq> [] then str_join [10] (take 60 diff_lines) else placeholder)"

definition main :: "config \<Rightarrow> lib \<Rightarrow> env \<Rightarrow> world \<Rightarrow> (exn + unit) \<times> world" where
  "main cfg lb en w =
     (case TARGET_URL cfg of
        None \<Rightarrow> (Inl AssertionError, w)
      | Some url \<Rightarrow>
          if url = [] then (Inl AssertionError, w)
          else
            let state = load_state w in
            (case fetch_content cfg lb en url (etag state) (last_modified state) of
               Inl e \<Rightarrow> (Inl e, w)
             | Inr (content, etg, lm, not_modified) \<Rightarrow>
                 if not_modified then
                   (Inr (), save_state (state\<lparr>last_ok_run := Some (time_done en)\<rparr>) w)
                 else
                   (case content of
                      None \<Rightarrow> (Inl AttributeError, w)
                    | Some c \<Rightarrow>
                        (case sha256 lb c of
                           Inl e \<Rightarrow> (Inl e, w)
                         | Inr new_hash \<Rightarrow>
                             let old_hash = last_hash state
                             in if Some new_hash \<noteq> old_hash then
                                  let txt = build_message cfg en url
                                              (pretty_diff lb (last_excerpt state) c);
                                      w1 = send_ntfy cfg en (NOTIFY_TITLE cfg) txt w;
                                      state1 = state\<lparr>last_hash := Some new_hash,
                                          last_excerpt := str_join [10] (take 400 (splitlines c)),
                                          updated_at := Some (time_changed en)\<rparr>
                                  in (Inr (), save_state (state1\<lparr>etag := etg, last_modified := lm,
                                          last_ok_run := Some (time_done en)\<rparr>) w1)
                                else
                                  (Inr (), save_state (state\<lparr>etag := etg, last_modified := lm,
                                          last_ok_run := Some (time_done en)\<rparr>) w)))))"

section \<open>Concrete runs\<close>

text \<open>
  A configuration, a small stand-in for the libraries, and an outside world, on which the
  model runs on concrete inputs. In the stand-in the text of a page is its HTML; \<open>re.sub\<close>
  raises \<open>re.error\<close> on the pattern \<open>"("\<close> and \<open>OverflowError\<close> on the pattern
  \<open>"a{99999999999999999999}"\<close>, as \<open>re\<close> does, and any other pattern matches nothing; the digest
  of a text is the text; the diff of two different lists of lines removes every old line and
  adds every new one.
\<close>

definition example_url :: str where
  "example_url = lit ''https://example.com''"

definition example_cfg :: config where
  "example_cfg =
     \<lparr>TARGET_URL = Some example_url, CSS_SELECTOR = [], IGNORE_REGEX = [],
      USER_AGENT = lit ''ChangeWatcher/1.2 (+github actions)'',
      NTFY_SERVER = lit ''https://ntfy.sh'', NTFY_TOPIC = lit ''m2'',
      NOTIFY_TEMPLATE = [], NOTIFY_PREFIX = lit ''Change'', NOTIFY_TITLE = lit ''Ergebnis M2''\<rparr>"

definition example_lib :: lib where
  "example_lib =
     \<lparr>soup_get_text = (\<lambda>html. html),
      soup_select_one = (\<lambda>html sel. Inr None),
      re_sub = (\<lambda>pattern repl s.
         if pattern = lit ''('' then Inl ReError
         else if pattern = lit ''a{99999999999999999999}'' then Inl OverflowError
         else Inr s),
      hashlib_sha256 = (\<lambda>s. s),
      unified_diff = (\<lambda>a b n. if a = b then []
         else lit ''--- '' # lit ''+++ '' # map ((#) 45) a @ map ((#) 43) b)\<rparr>"

definition page :: "nat \<Rightarrow> str \<Rightarrow> response" where
  "page st body = \<lparr>status_code = st, headers = Map.empty, resp_text = body\<rparr>"

definition example_env :: "exn + response \<Rightarrow> exn + response \<Rightarrow> env" where
  "example_env got posted =
     \<lparr>http_get = (\<lambda>url hdrs. got), http_post = (\<lambda>url hdrs body. posted),
      strftime_now = lit ''2024-01-01 00:00:00 UTC'',
      time_changed = 1704067200, time_done = 1704067201\<rparr>"

definition example_state :: monitor_state where
  "example_state =
     \<lparr>last_hash = Some (lit ''old''), last_excerpt = lit ''old'', updated_at = Some 1700000000,
      etag = Some (lit ''v1''), last_modified = None, last_ok_run = Some 1700000000\<rparr>"

definition example_world :: world where
  "example_world = \<lparr>state_file = Some example_state, outbox = []\<rparr>"

definition empty_world :: world where
  "empty_world = \<lparr>state_file = None, outbox = []\<rparr>"

definition error_page :: response where
  "error_page = \<lparr>status_code = 500, headers = [lit ''ETag'' \<mapsto> lit ''v2''], resp_text = []\<rparr>"

text \<open>
  A response that is no error for \<open>raise_for_status\<close> although its status is neither 304 nor
  2xx, and a page whose text holds a surrogate.
\<close>

definition redirect_page :: response where
  "redirect_page = page 300 (lit ''new'')"

definition surrogate_page :: response where
  "surrogate_page = page 200 [97, 55296, 98]"

text \<open>
  A template as a sequence of plain texts and placeholders. \<open>fill u t d\<close> writes a token out:
  a placeholder as its value, or as itself where the value is \<open>None\<close>.
\<close>

datatype token = Text str | URL | TIME | DIFF

fun fill :: "str option \<Rightarrow> str option \<Rightarrow> str option \<Rightarrow> token \<Rightarrow> str" where
  "fill u t d (Text s) = s"
| "fill u t d URL = (case u of None \<Rightarrow> lit ''{URL}'' | Some v \<Rightarrow> v)"
| "fill u t d TIME = (case t of None \<Rightarrow> lit ''{TIME}'' | Some v \<Rightarrow> v)"
| "fill u t d DIFF = (case d of None \<Rightarrow> lit ''{DIFF}'' | Some v \<Rightarrow> v)"

text \<open>A plain text of a template holds no opening brace (code point 123).\<close>

fun no_brace :: "token \<Rightarrow> bool" where
  "no_brace (Text s) = (123 \<notin> set s)"
| "no_brace URL = True"
| "no_brace TIME = True"
| "no_brace DIFF = True"

text \<open>A text without line boundary, and the text of \<open>n\<close> lines \<open>a\<close>.\<close>

definition one_line :: "str \<Rightarrow> bool" where
  "one_line l \<longleftrightarrow> list_all (\<lambda>c. \<not> is_linebreak c) l"

definition many_lines :: "nat \<Rightarrow> str" where
  "many_lines n = str_join [10] (replicate n [97])"

section \<open>Failure of the fetch\<close>

lemma main_fetch_error:
  assumes "TARGET_URL cfg = Some url" and "url \<noteq> []"
    and "fetch_content cfg lb en url (etag (load_state w)) (last_modified (load_state w)) = Inl e"
  shows "main cfg lb en w = (Inl e, w)"
  using assms by (simp add: main_def)

lemma fetch_content_get_raises:
  "http_get en url (request_headers cfg etg lm) = Inl e \<Longrightarrow>
   fetch_content cfg lb en url etg lm = Inl e"
  by (simp add: fetch_content_def)

lemma fetch_content_status_raises:
  "http_get en url (request_headers cfg etg lm) = Inr resp \<Longrightarrow>
   status_code resp \<noteq> 304 \<Longrightarrow> raise_for_status resp = Inl e \<Longrightarrow>
   fetch_content cfg lb en url etg lm = Inl e"
  by (simp add: fetch_content_def)

lemma example_url_nonempty: "example_url \<noteq> []"
  by (simp add: example_url_def lit_def)

lemma main_run_changed:
  assumes "TARGET_URL cfg = Some url" and "url \<noteq> []"
    and "fetch_content cfg lb en url (etag (load_state w)) (last_modified (load_state w))
           = Inr (Some c, etg, lm, False)"
    and "sha256 lb c = Inr h"
    and "Some h \<noteq> last_hash (load_state w)"
  shows "main cfg lb en w =
           (Inr (),
            save_state ((load_state w)\<lparr>last_hash := Some h,
                last_excerpt := str_join [10] (take 400 (splitlines c)),
                updated_at := Some (time_changed en),
                etag := etg, last_modified := lm, last_ok_run := Some (time_done en)\<rparr>)
              (send_ntfy cfg en (NOTIFY_TITLE cfg)
                 (build_message cfg en url (pretty_diff lb (last_excerpt (load_state w)) c)) w))"
  using assms by (simp add: main_def Let_def)

lemma example_fetch_redirect:
  "fetch_content example_cfg example_lib (example_env (Inr redirect_page) posted)
     example_url (etag (load_state example_world)) (last_modified (load_state example_world))
   = Inr (Some (lit ''new''), Some (lit ''v1''), None, False)"
  by (simp add: fetch_content_def example_cfg_def example_env_def example_lib_def page_def
      redirect_page_def raise_for_status_def select_text_def remove_ignored_def strip_def
      load_state_def example_world_def example_state_def lit_def isspace_def)

lemma example_run_redirect:
  "main example_cfg example_lib (example_env (Inr redirect_page) (Inl RequestException))
     example_world =
   (Inr (),
    save_state \<lparr>last_hash = Some (lit ''new''), last_excerpt = lit ''new'',
        updated_at = Some 1704067200, etag = Some (lit ''v1''), last_modified = None,
        last_ok_run = Some 1704067201\<rparr>
      (send_ntfy example_cfg (example_env (Inr redirect_page) (Inl RequestException))
         (NOTIFY_TITLE example_cfg)
         (build_message example_cfg (example_env (Inr redirect_page) (Inl RequestException))
            example_url (pretty_diff example_lib (last_excerpt (load_state example_world))
              (lit ''new'')))
         example_world))"
proof -
  have t: "TARGET_URL example_cfg = Some example_url"
    by (simp add: example_cfg_def)
  have h: "sha256 example_lib (lit ''new'') = Inr (lit ''new'')"
    by (simp add: sha256_def example_lib_def has_surrogate_def lit_def)
  have c: "Some (lit ''new'') \<noteq> last_hash (load_state example_world)"
    by (simp add: load_state_def example_world_def example_state_def lit_def)
  have "(load_state example_world)\<lparr>last_hash := Some (lit ''new''),
            last_excerpt := str_join [10] (take 400 (splitlines (lit ''new''))),
            updated_at := Some (time_changed (example_env (Inr redirect_page) (Inl RequestException))),
            etag := Some (lit ''v1''), last_modified := None,
            last_ok_run := Some (time_done (example_env (Inr redirect_page) (Inl RequestException)))\<rparr>
        = \<lparr>last_hash = Some (lit ''new''), last_excerpt = lit ''new'',
            updated_at = Some 1704067200, etag = Some (lit ''v1''), last_modified = None,
            last_ok_run = Some 1704067201\<rparr>"
    by (simp add: load_state_def example_world_def example_state_def example_env_def
        splitlines_def lit_def is_linebreak_def)
  with main_run_changed[OF t example_url_nonempty example_fetch_redirect h c]
  show ?thesis by simp
qed

text \<open>
  A response with status 300 that \<open>requests\<close> hands to the caller (no redirect is followed):
  the status is neither 304 nor 2xx, yet \<open>raise_for_status\<close> does not raise, the run completes
  and the state file is rewritten with the hash and the excerpt of the body.
\<close>

theorem status_300_is_processed_counterexample:
  "status_code redirect_page = 300 \<and>
   raise_for_status redirect_page = Inr () \<and>
   fst (main example_cfg example_lib (example_env (Inr redirect_page) (Inl RequestException))
          example_world) = Inr () \<and>
   state_file example_world = Some example_state \<and>
   last_hash example_state = Some (lit ''old'') \<and>
   state_file (snd (main example_cfg example_lib
      (example_env (Inr redirect_page) (Inl RequestException)) example_world)) =
     Some \<lparr>last_hash = Some (lit ''new''), last_excerpt = lit ''new'',
        updated_at = Some 1704067200, etag = Some (lit ''v1''), last_modified = None,
        last_ok_run = Some 1704067201\<rparr>"
  unfolding example_run_redirect
  by (simp add: redirect_page_def page_def raise_for_status_def save_state_def
      example_world_def example_state_def)

text \<open>
  C1, amended. When the fetch fails, that is when \<open>requests.get\<close> raises (network failure,
  timeout) or the response has a 4xx or 5xx status, \<open>main\<close> ends with that exception and the
  world is the one it started in: the state file is not written, no field of it changes.
\<close>

theorem fetch_failure_leaves_state_untouched:
  assumes "TARGET_URL cfg = Some url" and "url \<noteq> []"
    and "http_get en url
           (request_headers cfg (etag (load_state w)) (last_modified (load_state w))) = r"
    and "r = Inl e \<or>
         (\<exists>resp. r = Inr resp \<and> 400 \<le> status_code resp \<and> status_code resp < 600 \<and>
            e = HTTPError (status_code resp))"
  shows "main cfg lb en w = (Inl e, w)"
proof -
  have "fetch_content cfg lb en url (etag (load_state w)) (last_modified (load_state w)) = Inl e"
    using assms(3,4)
  proof (elim disjE exE conjE)
    assume "http_get en url
        (request_headers cfg (etag (load_state w)) (last_modified (load_state w))) = r" "r = Inl e"
    then show ?thesis
      by (simp add: fetch_content_get_raises)
  next
    fix resp
    assume g: "http_get en url
        (request_headers cfg (etag (load_state w)) (last_modified (load_state w))) = r"
      "r = Inr resp" and s: "400 \<le> status_code resp" "status_code resp < 600"
      and e: "e = HTTPError (status_code resp)"
    from s e have "status_code resp \<noteq> 304" "raise_for_status resp = Inl e"
      by (simp_all add: raise_for_status_def)
    with g show ?thesis
      by (simp add: fetch_content_status_raises)
  qed
  with assms(1,2) show ?thesis
    by (simp add: main_fetch_error)
qed

theorem fetch_failure_leaves_state_untouched_witness:
  "status_code (page 500 []) = 500 \<and>
   main example_cfg example_lib (example_env (Inr (page 500 [])) (Inl RequestException))
     example_world = (Inl (HTTPError 500), example_world)"
proof -
  have "main example_cfg example_lib (example_env (Inr (page 500 [])) (Inl RequestException))
     example_world = (Inl (HTTPError 500), example_world)"
    using fetch_failure_leaves_state_untouched
      [of example_cfg example_url "example_env (Inr (page 500 [])) (Inl RequestException)"
          example_world "Inr (page 500 [])" "HTTPError 500" example_lib]
    by (simp add: example_cfg_def example_env_def example_url_nonempty page_def)
  then show ?thesis by (simp add: page_def)
qed

section \<open>The paths of a run\<close>

lemma fetch_content_not_modified:
  "fetch_content cfg lb en url etg lm = Inr (content, etg', lm', True) \<Longrightarrow>
   content = None \<and> etg' = etg \<and> lm' = lm \<and>
   (\<exists>resp. http_get en url (request_headers cfg etg lm) = Inr resp \<and> status_code resp = 304)"
  by (auto simp: fetch_content_def Let_def split: sum.splits if_splits)

lemma fetch_content_modified:
  "fetch_content cfg lb en url etg lm = Inr (content, etg', lm', False) \<Longrightarrow>
   (\<exists>c. content = Some c) \<and>
   (\<exists>resp. http_get en url (request_headers cfg etg lm) = Inr resp \<and> status_code resp \<noteq> 304)"
  by (auto simp: fetch_content_def Let_def split: sum.splits if_splits)

lemma main_not_modified:
  assumes "TARGET_URL cfg = Some url" and "url \<noteq> []"
    and "fetch_content cfg lb en url (etag (load_state w)) (last_modified (load_state w))
           = Inr (content, etg, lm, True)"
  shows "main cfg lb en w =
           (Inr (), save_state ((load_state w)\<lparr>last_ok_run := Some (time_done en)\<rparr>) w)"
  using assms by (simp add: main_def Let_def)

lemma main_unchanged:
  assumes "TARGET_URL cfg = Some url" and "url \<noteq> []"
    and "fetch_content cfg lb en url (etag (load_state w)) (last_modified (load_state w))
           = Inr (Some c, etg, lm, False)"
    and "sha256 lb c = Inr h"
    and "Some h = last_hash (load_state w)"
  shows "main cfg lb en w =
           (Inr (), save_state ((load_state w)\<lparr>etag := etg, last_modified := lm,
              last_ok_run := Some (time_done en)\<rparr>) w)"
  using assms by (simp add: main_def Let_def)

lemma main_encode_error:
  assumes "TARGET_URL cfg = Some url" and "url \<noteq> []"
    and "fetch_content cfg lb en url (etag (load_state w)) (last_modified (load_state w))
           = Inr (Some c, etg, lm, False)"
    and "sha256 lb c = Inl e"
  shows "main cfg lb en w = (Inl e, w)"
  using assms by (simp add: main_def Let_def)

lemma main_ok_cases:
  assumes "main cfg lb en w = (Inr (), w')"
  obtains url content etg lm nm where
    "TARGET_URL cfg = Some url" "url \<noteq> []"
    "fetch_content cfg lb en url (etag (load_state w)) (last_modified (load_state w)) = Inr (content, etg, lm, nm)"
  using assms
  by (auto simp: main_def Let_def split: option.splits if_splits sum.splits)

lemma state_file_send_ntfy: "state_file (send_ntfy cfg en title txt w) = state_file w"
  by (simp add: send_ntfy_def Let_def split: sum.splits)

lemma outbox_send_ntfy:
  "outbox (send_ntfy cfg en title txt w) =
     outbox w @ (if NTFY_TOPIC cfg = [] \<or> has_surrogate txt then []
        else [(NTFY_SERVER cfg @ lit ''/'' @ NTFY_TOPIC cfg,
               [(lit ''Title'', title), (lit ''Tags'', lit ''bell''), (lit ''Priority'', lit ''4'')],
               txt)])"
  by (simp add: send_ntfy_def Let_def split: sum.splits)

lemma send_ntfy_post_irrelevant:
  "send_ntfy cfg (en\<lparr>http_post := p\<rparr>) title txt w = send_ntfy cfg en title txt w"
  by (simp add: send_ntfy_def Let_def split: sum.splits)


lemma fetch_content_post_irrelevant:
  "fetch_content cfg lb (en\<lparr>http_post := p\<rparr>) url etg lm = fetch_content cfg lb en url etg lm"
  by (simp add: fetch_content_def)

lemma build_message_post_irrelevant:
  "build_message cfg (en\<lparr>http_post := p\<rparr>) url d = build_message cfg en url d"
  by (simp add: build_message_def)

lemma main_post_irrelevant:
  "main cfg lb (en\<lparr>http_post := p\<rparr>) w = main cfg lb en w"
  by (simp add: main_def Let_def fetch_content_post_irrelevant build_message_post_irrelevant
      send_ntfy_post_irrelevant split: option.split sum.split prod.split)

text \<open>
  C2. A run that completes leaves a state file whose \<open>etag\<close> and \<open>last_modified\<close> are the
  validators \<open>fetch_content\<close> returned and whose \<open>last_ok_run\<close> is the time of the run. When no
  change is detected, that is when the server answered 304 or the digest of the content equals
  the stored \<open>last_hash\<close>, the fields \<open>last_hash\<close>, \<open>last_excerpt\<close> and \<open>updated_at\<close> are
  the ones the run loaded.
\<close>

theorem successful_run_bookkeeping:
  assumes "main cfg lb en w = (Inr (), w')"
  shows "\<exists>url content etg lm nm s'.
      TARGET_URL cfg = Some url \<and>
      fetch_content cfg lb en url (etag (load_state w)) (last_modified (load_state w))
        = Inr (content, etg, lm, nm) \<and>
      (nm \<longleftrightarrow> (\<exists>resp. http_get en url (request_headers cfg (etag (load_state w))
                    (last_modified (load_state w))) = Inr resp \<and> status_code resp = 304)) \<and>
      state_file w' = Some s' \<and>
      etag s' = etg \<and> last_modified s' = lm \<and> last_ok_run s' = Some (time_done en) \<and>
      (nm \<or> (\<exists>c h. content = Some c \<and> sha256 lb c = Inr h \<and>
                  last_hash (load_state w) = Some h) \<longrightarrow>
         last_hash s' = last_hash (load_state w) \<and>
         last_excerpt s' = last_excerpt (load_state w) \<and>
         updated_at s' = updated_at (load_state w))"
proof -
  from assms obtain url content etg lm nm where
    u: "TARGET_URL cfg = Some url" "url \<noteq> []" and
    f: "fetch_content cfg lb en url (etag (load_state w)) (last_modified (load_state w))
          = Inr (content, etg, lm, nm)"
    by (rule main_ok_cases)
  show ?thesis
  proof (cases nm)
    case True
    with f have f': "fetch_content cfg lb en url (etag (load_state w))
        (last_modified (load_state w)) = Inr (content, etg, lm, True)"
      by simp
    have nm: "content = None" "etg = etag (load_state w)" "lm = last_modified (load_state w)"
      "\<exists>resp. http_get en url (request_headers cfg (etag (load_state w))
                    (last_modified (load_state w))) = Inr resp \<and> status_code resp = 304"
      using fetch_content_not_modified[OF f'] by simp_all
    from u f' have "main cfg lb en w =
           (Inr (), save_state ((load_state w)\<lparr>last_ok_run := Some (time_done en)\<rparr>) w)"
      by (rule main_not_modified)
    with assms have "state_file w' = Some ((load_state w)\<lparr>last_ok_run := Some (time_done en)\<rparr>)"
      by (auto simp: save_state_def)
    with u f True nm show ?thesis by auto
  next
    case False
    with f have f': "fetch_content cfg lb en url (etag (load_state w))
        (last_modified (load_state w)) = Inr (content, etg, lm, False)"
      by simp
    from fetch_content_modified[OF f'] obtain c where c: "content = Some c"
      and g: "\<exists>resp. http_get en url (request_headers cfg (etag (load_state w))
                    (last_modified (load_state w))) = Inr resp \<and> status_code resp \<noteq> 304"
      by blast
    from g have n304: "\<not> (\<exists>resp. http_get en url (request_headers cfg (etag (load_state w))
                    (last_modified (load_state w))) = Inr resp \<and> status_code resp = 304)"
      by auto
    from f' c have f'': "fetch_content cfg lb en url (etag (load_state w))
        (last_modified (load_state w)) = Inr (Some c, etg, lm, False)"
      by simp
    show ?thesis
    proof (cases "sha256 lb c")
      case (Inl e)
      with u f'' have "main cfg lb en w = (Inl e, w)"
        by (rule main_encode_error)
      with assms show ?thesis by simp
    next
      case (Inr h)
      show ?thesis
      proof (cases "Some h = last_hash (load_state w)")
        case True
        from u f'' Inr True have "main cfg lb en w =
             (Inr (), save_state ((load_state w)\<lparr>etag := etg, last_modified := lm,
                last_ok_run := Some (time_done en)\<rparr>) w)"
          by (rule main_unchanged)
        with assms have "state_file w' = Some ((load_state w)\<lparr>etag := etg, last_modified := lm,
                last_ok_run := Some (time_done en)\<rparr>)"
          by (auto simp: save_state_def)
        with u f False c n304 show ?thesis by auto
      next
        case ch: False
        from u f'' Inr ch have "main cfg lb en w = (Inr (),
              save_state ((load_state w)\<lparr>last_hash := Some h,
                  last_excerpt := str_join [10] (take 400 (splitlines c)),
                  updated_at := Some (time_changed en),
                  etag := etg, last_modified := lm, last_ok_run := Some (time_done en)\<rparr>)
                (send_ntfy cfg en (NOTIFY_TITLE cfg)
                   (build_message cfg en url (pretty_diff lb (last_excerpt (load_state w)) c)) w))"
          by (rule main_run_changed)
        with assms have "state_file w' = Some ((load_state w)\<lparr>last_hash := Some h,
                  last_excerpt := str_join [10] (take 400 (splitlines c)),
                  updated_at := Some (time_changed en),
                  etag := etg, last_modified := lm, last_ok_run := Some (time_done en)\<rparr>)"
          by (auto simp: save_state_def state_file_send_ntfy)
        with u f False c Inr ch n304 show ?thesis by auto
      qed
    qed
  qed
qed

lemma example_run_304:
  "main example_cfg example_lib (example_env (Inr (page 304 [])) (Inl RequestException))
     example_world =
   (Inr (), \<lparr>state_file = Some (example_state\<lparr>last_ok_run := Some 1704067201\<rparr>), outbox = []\<rparr>)"
  by (simp add: main_def fetch_content_def example_cfg_def example_env_def example_world_def
      page_def load_state_def save_state_def example_url_nonempty)

theorem successful_run_bookkeeping_witness:
  "main example_cfg example_lib (example_env (Inr (page 304 [])) (Inl RequestException))
     example_world =
   (Inr (), \<lparr>state_file = Some (example_state\<lparr>last_ok_run := Some 1704067201\<rparr>), outbox = []\<rparr>) \<and>
   (\<exists>url content etg lm nm s'.
      TARGET_URL example_cfg = Some url \<and>
      fetch_content example_cfg example_lib (example_env (Inr (page 304 [])) (Inl RequestException))
        url (etag (load_state example_world)) (last_modified (load_state example_world))
        = Inr (content, etg, lm, nm) \<and>
      (nm \<longleftrightarrow> (\<exists>resp. http_get (example_env (Inr (page 304 [])) (Inl RequestException)) url
            (request_headers example_cfg (etag (load_state example_world))
                    (last_modified (load_state example_world))) = Inr resp \<and> status_code resp = 304)) \<and>
      state_file \<lparr>state_file = Some (example_state\<lparr>last_ok_run := Some 1704067201\<rparr>), outbox = []\<rparr>
        = Some s' \<and>
      etag s' = etg \<and> last_modified s' = lm \<and>
      last_ok_run s' = Some (time_done (example_env (Inr (page 304 [])) (Inl RequestException))) \<and>
      (nm \<or> (\<exists>c h. content = Some c \<and> sha256 example_lib c = Inr h \<and>
                  last_hash (load_state example_world) = Some h) \<longrightarrow>
         last_hash s' = last_hash (load_state example_world) \<and>
         last_excerpt s' = last_excerpt (load_state example_world) \<and>
         updated_at s' = updated_at (load_state example_world)))"
  using successful_run_bookkeeping[OF example_run_304] example_run_304 by blast

section \<open>First run\<close>

lemma example_fetch_surrogate:
  "fetch_content example_cfg example_lib (example_env (Inr surrogate_page) (Inl RequestException))
     example_url (etag (load_state empty_world)) (last_modified (load_state empty_world))
   = Inr (Some [97, 55296, 98], None, None, False)"
  by (simp add: fetch_content_def example_cfg_def example_env_def example_lib_def page_def
      surrogate_page_def raise_for_status_def select_text_def remove_ignored_def strip_def
      load_state_def empty_world_def default_state_def isspace_def)

text \<open>
  A first run on a page whose text holds the surrogate U+D800 (a \<open>str\<close> that \<open>requests\<close> and
  \<open>bs4\<close> can return): the fetch succeeds with content, \<open>sha256\<close> raises on the encoding, and
  the run ends with \<open>UnicodeEncodeError\<close>; no state file is written and nothing is posted.
\<close>

theorem first_run_surrogate_counterexample:
  "last_hash (load_state empty_world) = None \<and>
   fetch_content example_cfg example_lib (example_env (Inr surrogate_page) (Inl RequestException))
     example_url (etag (load_state empty_world)) (last_modified (load_state empty_world))
   = Inr (Some [97, 55296, 98], None, None, False) \<and>
   sha256 example_lib [97, 55296, 98] = Inl UnicodeEncodeError \<and>
   main example_cfg example_lib (example_env (Inr surrogate_page) (Inl RequestException))
     empty_world = (Inl UnicodeEncodeError, empty_world) \<and>
   state_file empty_world = None \<and> outbox empty_world = []"
proof -
  have t: "TARGET_URL example_cfg = Some example_url"
    by (simp add: example_cfg_def)
  have h: "sha256 example_lib [97, 55296, 98] = Inl UnicodeEncodeError"
    by (simp add: sha256_def has_surrogate_def)
  have "main example_cfg example_lib (example_env (Inr surrogate_page) (Inl RequestException))
     empty_world = (Inl UnicodeEncodeError, empty_world)"
    using t example_url_nonempty example_fetch_surrogate h by (rule main_encode_error)
  with h example_fetch_surrogate show ?thesis
    by (simp add: load_state_def empty_world_def default_state_def)
qed

text \<open>
  C3, amended. On a run that loads no \<open>last_hash\<close> and whose fetch returns a content \<open>c\<close> that
  can be encoded as UTF-8 (no surrogate), whatever else \<open>c\<close> is (the empty text too), \<open>main\<close>
  completes, stores the digest of \<open>c\<close>, the first 400 lines of \<open>c\<close> and the time of the change,
  and calls \<open>send_ntfy\<close> on the message built from the rendered diff: one POST to the topic
  (\<open>send_ntfy\<close> returns without a POST when no topic is configured or the message cannot be
  encoded).
\<close>

theorem first_run_records_change:
  assumes "TARGET_URL cfg = Some url" and "url \<noteq> []"
    and "last_hash (load_state w) = None"
    and "fetch_content cfg lb en url (etag (load_state w)) (last_modified (load_state w))
           = Inr (Some c, etg, lm, False)"
    and "\<not> has_surrogate c"
  shows "main cfg lb en w =
           (Inr (),
            save_state ((load_state w)\<lparr>last_hash := Some (hashlib_sha256 lb c),
                last_excerpt := str_join [10] (take 400 (splitlines c)),
                updated_at := Some (time_changed en),
                etag := etg, last_modified := lm, last_ok_run := Some (time_done en)\<rparr>)
              (send_ntfy cfg en (NOTIFY_TITLE cfg)
                 (build_message cfg en url (pretty_diff lb (last_excerpt (load_state w)) c)) w)) \<and>
         state_file (snd (main cfg lb en w)) =
           Some ((load_state w)\<lparr>last_hash := Some (hashlib_sha256 lb c),
                last_excerpt := str_join [10] (take 400 (splitlines c)),
                updated_at := Some (time_changed en),
                etag := etg, last_modified := lm, last_ok_run := Some (time_done en)\<rparr>) \<and>
         outbox (snd (main cfg lb en w)) =
           outbox w @
           (if NTFY_TOPIC cfg = [] \<or>
               has_surrogate
                 (build_message cfg en url (pretty_diff lb (last_excerpt (load_state w)) c))
            then []
            else [(NTFY_SERVER cfg @ lit ''/'' @ NTFY_TOPIC cfg,
                   [(lit ''Title'', NOTIFY_TITLE cfg), (lit ''Tags'', lit ''bell''),
                    (lit ''Priority'', lit ''4'')],
                   build_message cfg en url (pretty_diff lb (last_excerpt (load_state w)) c))])"
proof -
  from assms(5) have h: "sha256 lb c = Inr (hashlib_sha256 lb c)"
    by (simp add: sha256_def)
  from assms(3) have "Some (hashlib_sha256 lb c) \<noteq> last_hash (load_state w)"
    by simp
  with assms(1,2,4) h have m: "main cfg lb en w =
           (Inr (),
            save_state ((load_state w)\<lparr>last_hash := Some (hashlib_sha256 lb c),
                last_excerpt := str_join [10] (take 400 (splitlines c)),
                updated_at := Some (time_changed en),
                etag := etg, last_modified := lm, last_ok_run := Some (time_done en)\<rparr>)
              (send_ntfy cfg en (NOTIFY_TITLE cfg)
                 (build_message cfg en url (pretty_diff lb (last_excerpt (load_state w)) c)) w))"
    by (rule main_run_changed)
  show ?thesis
    by (simp add: m save_state_def outbox_send_ntfy)
qed

lemma example_fetch_empty:
  "fetch_content example_cfg example_lib (example_env (Inr (page 200 [])) (Inl RequestException))
     example_url (etag (load_state empty_world)) (last_modified (load_state empty_world))
   = Inr (Some [], None, None, False)"
  by (simp add: fetch_content_def example_cfg_def example_env_def example_lib_def page_def
      raise_for_status_def select_text_def remove_ignored_def strip_def load_state_def
      empty_world_def default_state_def)

theorem first_run_records_change_witness:
  "last_hash (load_state empty_world) = None \<and>
   fetch_content example_cfg example_lib (example_env (Inr (page 200 [])) (Inl RequestException))
     example_url (etag (load_state empty_world)) (last_modified (load_state empty_world))
   = Inr (Some [], None, None, False) \<and>
   \<not> has_surrogate [] \<and>
   state_file (snd (main example_cfg example_lib
      (example_env (Inr (page 200 [])) (Inl RequestException)) empty_world)) =
     Some \<lparr>last_hash = Some [], last_excerpt = [], updated_at = Some 1704067200,
           etag = None, last_modified = None, last_ok_run = Some 1704067201\<rparr> \<and>
   outbox (snd (main example_cfg example_lib
      (example_env (Inr (page 200 [])) (Inl RequestException)) empty_world)) =
     [(lit ''https://ntfy.sh/m2'',
       [(lit ''Title'', lit ''Ergebnis M2''), (lit ''Tags'', lit ''bell''), (lit ''Priority'', lit ''4'')],
       lit ''Change'' @ [10] @ lit ''URL: https://example.com'' @ [10] @
       lit ''Zeit: 2024-01-01 00:00:00 UTC'' @ [10, 10] @ lit ''*Kurzdiff:*'' @ [10] @
       lit ''```'' @ [10] @ placeholder @ [10] @ lit ''```'')]"
proof -
  have h: "last_hash (load_state empty_world) = None"
    by (simp add: load_state_def empty_world_def default_state_def)
  have t: "TARGET_URL example_cfg = Some example_url"
    by (simp add: example_cfg_def)
  have n: "\<not> has_surrogate []"
    by (simp add: has_surrogate_def)
  note r = first_run_records_change[OF t example_url_nonempty h example_fetch_empty n]
  have s: "state_file (snd (main example_cfg example_lib
      (example_env (Inr (page 200 [])) (Inl RequestException)) empty_world)) =
     Some \<lparr>last_hash = Some [], last_excerpt = [], updated_at = Some 1704067200,
           etag = None, last_modified = None, last_ok_run = Some 1704067201\<rparr>"
    unfolding r[THEN conjunct2, THEN conjunct1]
    by (simp add: load_state_def empty_world_def default_state_def example_lib_def
        example_env_def splitlines_def)
  have o: "outbox (snd (main example_cfg example_lib
      (example_env (Inr (page 200 [])) (Inl RequestException)) empty_world)) =
     [(lit ''https://ntfy.sh/m2'',
       [(lit ''Title'', lit ''Ergebnis M2''), (lit ''Tags'', lit ''bell''), (lit ''Priority'', lit ''4'')],
       lit ''Change'' @ [10] @ lit ''URL: https://example.com'' @ [10] @
       lit ''Zeit: 2024-01-01 00:00:00 UTC'' @ [10, 10] @ lit ''*Kurzdiff:*'' @ [10] @
       lit ''```'' @ [10] @ placeholder @ [10] @ lit ''```'')]"
    unfolding r[THEN conjunct2, THEN conjunct2]
    by (simp add: load_state_def empty_world_def default_state_def example_lib_def
        example_env_def example_cfg_def splitlines_def build_message_def pretty_diff_def
        example_url_def placeholder_def has_surrogate_def lit_def)
  from h example_fetch_empty n s o show ?thesis
    by simp
qed

section \<open>Failure of the notification\<close>

text \<open>
  C5. Whatever the POST of the notification does (\<open>p\<close> may raise or answer with any status), a
  run that detects a change ends as it does with any other behaviour of the POST: \<open>main\<close>
  completes and the state file holds the new digest, excerpt and \<open>updated_at\<close>, the validators
  and \<open>last_ok_run\<close>.
\<close>

theorem dispatch_failure_does_not_block_persistence:
  assumes "TARGET_URL cfg = Some url" and "url \<noteq> []"
    and "fetch_content cfg lb en url (etag (load_state w)) (last_modified (load_state w))
           = Inr (Some c, etg, lm, False)"
    and "sha256 lb c = Inr h"
    and "Some h \<noteq> last_hash (load_state w)"
  shows "main cfg lb (en\<lparr>http_post := p\<rparr>) w = main cfg lb en w \<and>
         fst (main cfg lb (en\<lparr>http_post := p\<rparr>) w) = Inr () \<and>
         state_file (snd (main cfg lb (en\<lparr>http_post := p\<rparr>) w)) =
           Some ((load_state w)\<lparr>last_hash := Some h,
                last_excerpt := str_join [10] (take 400 (splitlines c)),
                updated_at := Some (time_changed en),
                etag := etg, last_modified := lm, last_ok_run := Some (time_done en)\<rparr>)"
  by (simp add: main_post_irrelevant main_run_changed[OF assms] save_state_def
      state_file_send_ntfy)

lemma example_fetch_new:
  "fetch_content example_cfg example_lib (example_env (Inr (page 200 (lit ''new''))) posted)
     example_url (etag (load_state example_world)) (last_modified (load_state example_world))
   = Inr (Some (lit ''new''), Some (lit ''v1''), None, False)"
  by (simp add: fetch_content_def example_cfg_def example_env_def example_lib_def page_def
      raise_for_status_def select_text_def remove_ignored_def strip_def load_state_def
      example_world_def example_state_def lit_def isspace_def)

theorem dispatch_failure_does_not_block_persistence_witness:
  "sha256 example_lib (lit ''new'') = Inr (lit ''new'') \<and>
   Some (lit ''new'') \<noteq> last_hash (load_state example_world) \<and>
   fst (main example_cfg example_lib
          ((example_env (Inr (page 200 (lit ''new''))) (Inr (page 200 [])))
             \<lparr>http_post := \<lambda>url hdrs body. Inl RequestException\<rparr>) example_world) = Inr () \<and>
   state_file (snd (main example_cfg example_lib
          ((example_env (Inr (page 200 (lit ''new''))) (Inr (page 200 [])))
             \<lparr>http_post := \<lambda>url hdrs body. Inl RequestException\<rparr>) example_world)) =
     Some \<lparr>last_hash = Some (lit ''new''), last_excerpt = lit ''new'',
           updated_at = Some 1704067200, etag = Some (lit ''v1''), last_modified = None,
           last_ok_run = Some 1704067201\<rparr>"
proof -
  have t: "TARGET_URL example_cfg = Some example_url"
    by (simp add: example_cfg_def)
  have g: "sha256 example_lib (lit ''new'') = Inr (lit ''new'')"
    by (simp add: sha256_def example_lib_def has_surrogate_def lit_def)
  have h: "Some (lit ''new'') \<noteq> last_hash (load_state example_world)"
    by (simp add: load_state_def example_world_def example_state_def lit_def)
  note r = dispatch_failure_does_not_block_persistence
    [OF t example_url_nonempty example_fetch_new g h, of "\<lambda>url hdrs body. Inl RequestException"]
  have s: "state_file (snd (main example_cfg example_lib
          ((example_env (Inr (page 200 (lit ''new''))) (Inr (page 200 [])))
             \<lparr>http_post := \<lambda>url hdrs body. Inl RequestException\<rparr>) example_world)) =
     Some \<lparr>last_hash = Some (lit ''new''), last_excerpt = lit ''new'',
           updated_at = Some 1704067200, etag = Some (lit ''v1''), last_modified = None,
           last_ok_run = Some 1704067201\<rparr>"
    unfolding r[THEN conjunct2, THEN conjunct2]
    by (simp add: load_state_def example_world_def example_state_def
        example_env_def splitlines_def lit_def is_linebreak_def)
  from g h r[THEN conjunct2, THEN conjunct1] s show ?thesis
    by simp
qed

section \<open>Failure of the fetch and the bookkeeping\<close>

lemma example_run_500:
  "main example_cfg example_lib (example_env (Inr error_page) (Inl RequestException))
     example_world = (Inl (HTTPError 500), example_world)"
  by (simp add: main_def fetch_content_def example_cfg_def example_env_def error_page_def
      raise_for_status_def example_url_nonempty)

text \<open>
  A response with status 500 and a new \<open>ETag\<close>: the run ends with \<open>HTTPError\<close>, and the state
  file keeps the \<open>last_ok_run\<close> and the \<open>etag\<close> it had; neither the time of this run nor the
  validator of the response is stored. A response with status 300, a non-success status other
  than 304, does not make the run abort at all.
\<close>

theorem failed_fetch_bookkeeping_counterexample:
  "fst (main example_cfg example_lib (example_env (Inr error_page) (Inl RequestException))
          example_world) = Inl (HTTPError 500) \<and>
   time_done (example_env (Inr error_page) (Inl RequestException)) = 1704067201 \<and>
   headers error_page (lit ''ETag'') = Some (lit ''v2'') \<and>
   map_option last_ok_run (state_file (snd (main example_cfg example_lib
       (example_env (Inr error_page) (Inl RequestException)) example_world)))
     = Some (Some 1700000000) \<and>
   map_option etag (state_file (snd (main example_cfg example_lib
       (example_env (Inr error_page) (Inl RequestException)) example_world)))
     = Some (Some (lit ''v1'')) \<and>
   status_code redirect_page = 300 \<and>
   fst (main example_cfg example_lib (example_env (Inr redirect_page) (Inl RequestException))
          example_world) = Inr () \<and>
   map_option last_hash (state_file (snd (main example_cfg example_lib
       (example_env (Inr redirect_page) (Inl RequestException)) example_world)))
     = Some (Some (lit ''new''))"
  unfolding example_run_500 example_run_redirect
  by (simp add: example_world_def example_state_def example_env_def error_page_def
      redirect_page_def page_def save_state_def)

text \<open>
  C6, amended. When the fetch fails with a 4xx or 5xx status, the run aborts and nothing is
  persisted: the stored snapshot and hash are not changed, and neither are \<open>etag\<close>,
  \<open>last_modified\<close> and \<open>last_ok_run\<close>; the state file is as it was.
\<close>

theorem failed_fetch_persists_nothing:
  assumes "TARGET_URL cfg = Some url" and "url \<noteq> []"
    and "http_get en url
           (request_headers cfg (etag (load_state w)) (last_modified (load_state w))) = Inr resp"
    and "400 \<le> status_code resp" and "status_code resp < 600"
  shows "fst (main cfg lb en w) = Inl (HTTPError (status_code resp)) \<and>
         state_file (snd (main cfg lb en w)) = state_file w \<and>
         load_state (snd (main cfg lb en w)) = load_state w"
proof -
  from assms(4,5) have "status_code resp \<noteq> 304"
    and "raise_for_status resp = Inl (HTTPError (status_code resp))"
    by (simp_all add: raise_for_status_def)
  with assms(3) have "fetch_content cfg lb en url (etag (load_state w))
      (last_modified (load_state w)) = Inl (HTTPError (status_code resp))"
    by (rule fetch_content_status_raises)
  with assms(1,2) have "main cfg lb en w = (Inl (HTTPError (status_code resp)), w)"
    by (rule main_fetch_error)
  then show ?thesis by simp
qed

theorem failed_fetch_persists_nothing_witness:
  "status_code error_page = 500 \<and>
   fst (main example_cfg example_lib (example_env (Inr error_page) (Inl RequestException))
          example_world) = Inl (HTTPError 500) \<and>
   load_state (snd (main example_cfg example_lib
       (example_env (Inr error_page) (Inl RequestException)) example_world)) = example_state"
proof -
  have t: "TARGET_URL example_cfg = Some example_url"
    by (simp add: example_cfg_def)
  have g: "http_get (example_env (Inr error_page) (Inl RequestException)) example_url
      (request_headers example_cfg (etag (load_state example_world))
         (last_modified (load_state example_world))) = Inr error_page"
    by (simp add: example_env_def)
  have n: "status_code error_page = 500"
    by (simp add: error_page_def)
  have l: "load_state example_world = example_state"
    by (simp add: load_state_def example_world_def)
  from failed_fetch_persists_nothing[OF t example_url_nonempty g, of example_lib] n l
  show ?thesis by simp
qed

section \<open>Ignore pattern\<close>






section \<open>Building the message\<close>

lemma replace_skip:
  assumes "old \<noteq> []" and "hd old \<notin> set xs"
  shows "replace (xs @ ys) old new = xs @ replace ys old new"
  using assms
proof (induction xs)
  case Nil
  then show ?case by simp
next
  case (Cons x xs)
  from Cons.prems have "take (length old) (x # xs @ ys) \<noteq> old"
    by (cases old) auto
  with Cons show ?case by simp
qed

lemma replace_hit:
  assumes "old \<noteq> []"
  shows "replace (old @ ys) old new = new @ replace ys old new"
proof -
  from assms obtain c cs where old: "old = c # cs"
    by (cases old) auto
  show ?thesis
    by (simp add: old)
qed

lemma hd_placeholders:
  "hd (lit ''{URL}'') = 123" "hd (lit ''{TIME}'') = 123" "hd (lit ''{DIFF}'') = 123"
  "lit ''{URL}'' \<noteq> []" "lit ''{TIME}'' \<noteq> []" "lit ''{DIFF}'' \<noteq> []"
  by (simp_all add: lit_def)

lemma replace_other_placeholder:
  "replace (lit ''{TIME}'' @ r) (lit ''{URL}'') v = lit ''{TIME}'' @ replace r (lit ''{URL}'') v"
  "replace (lit ''{DIFF}'' @ r) (lit ''{URL}'') v = lit ''{DIFF}'' @ replace r (lit ''{URL}'') v"
  "replace (lit ''{DIFF}'' @ r) (lit ''{TIME}'') v = lit ''{DIFF}'' @ replace r (lit ''{TIME}'') v"
  by (simp_all add: lit_def)

lemma fill_url:
  assumes "list_all no_brace toks"
  shows "replace (concat (map (fill None None None) toks)) (lit ''{URL}'') url
         = concat (map (fill (Some url) None None) toks)"
  using assms
proof (induction toks)
  case Nil
  then show ?case by (simp add: hd_placeholders)
next
  case (Cons tok toks)
  then have ih: "replace (concat (map (fill None None None) toks)) (lit ''{URL}'') url
         = concat (map (fill (Some url) None None) toks)"
    by simp
  show ?case
  proof (cases tok)
    case (Text s)
    with Cons.prems have "123 \<notin> set s" by simp
    then have "replace (s @ concat (map (fill None None None) toks)) (lit ''{URL}'') url
        = s @ replace (concat (map (fill None None None) toks)) (lit ''{URL}'') url"
      by (intro replace_skip) (simp_all add: hd_placeholders)
    with ih Text show ?thesis by simp
  next
    case URL
    have "replace (lit ''{URL}'' @ concat (map (fill None None None) toks)) (lit ''{URL}'') url
        = url @ replace (concat (map (fill None None None) toks)) (lit ''{URL}'') url"
      by (rule replace_hit) (simp add: hd_placeholders)
    with ih URL show ?thesis by simp
  next
    case TIME
    with ih show ?thesis by (simp add: replace_other_placeholder)
  next
    case DIFF
    with ih show ?thesis by (simp add: replace_other_placeholder)
  qed
qed

lemma fill_time:
  assumes "list_all no_brace toks" and "123 \<notin> set url"
  shows "replace (concat (map (fill (Some url) None None) toks)) (lit ''{TIME}'') now
         = concat (map (fill (Some url) (Some now) None) toks)"
  using assms(1)
proof (induction toks)
  case Nil
  then show ?case by (simp add: hd_placeholders)
next
  case (Cons tok toks)
  then have ih: "replace (concat (map (fill (Some url) None None) toks)) (lit ''{TIME}'') now
         = concat (map (fill (Some url) (Some now) None) toks)"
    by simp
  have skip: "replace (s @ r) (lit ''{TIME}'') now = s @ replace r (lit ''{TIME}'') now"
    if "123 \<notin> set s" for s r
    using that by (intro replace_skip) (simp_all add: hd_placeholders)
  show ?case
  proof (cases tok)
    case (Text s)
    with Cons.prems have "123 \<notin> set s" by simp
    with ih Text show ?thesis by (simp add: skip)
  next
    case URL
    with ih assms(2) show ?thesis by (simp add: skip)
  next
    case TIME
    have "replace (lit ''{TIME}'' @ concat (map (fill (Some url) None None) toks)) (lit ''{TIME}'') now
        = now @ replace (concat (map (fill (Some url) None None) toks)) (lit ''{TIME}'') now"
      by (rule replace_hit) (simp add: hd_placeholders)
    with ih TIME show ?thesis by simp
  next
    case DIFF
    with ih show ?thesis by (simp add: replace_other_placeholder)
  qed
qed

lemma fill_diff:
  assumes "list_all no_brace toks" and "123 \<notin> set url" and "123 \<notin> set now"
  shows "replace (concat (map (fill (Some url) (Some now) None) toks)) (lit ''{DIFF}'') d
         = concat (map (fill (Some url) (Some now) (Some d)) toks)"
  using assms(1)
proof (induction toks)
  case Nil
  then show ?case by (simp add: hd_placeholders)
next
  case (Cons tok toks)
  then have ih: "replace (concat (map (fill (Some url) (Some now) None) toks)) (lit ''{DIFF}'') d
         = concat (map (fill (Some url) (Some now) (Some d)) toks)"
    by simp
  have skip: "replace (s @ r) (lit ''{DIFF}'') d = s @ replace r (lit ''{DIFF}'') d"
    if "123 \<notin> set s" for s r
    using that by (intro replace_skip) (simp_all add: hd_placeholders)
  show ?case
  proof (cases tok)
    case (Text s)
    with Cons.prems have "123 \<notin> set s" by simp
    with ih Text show ?thesis by (simp add: skip)
  next
    case URL
    with ih assms(2) show ?thesis by (simp add: skip)
  next
    case TIME
    with ih assms(3) show ?thesis by (simp add: skip)
  next
    case DIFF
    have "replace (lit ''{DIFF}'' @ concat (map (fill (Some url) (Some now) None) toks)) (lit ''{DIFF}'') d
        = d @ replace (concat (map (fill (Some url) (Some now) None) toks)) (lit ''{DIFF}'') d"
      by (rule replace_hit) (simp add: hd_placeholders)
    with ih DIFF show ?thesis by simp
  qed
qed

text \<open>
  The template of the example with a URL that holds the text \<open>{DIFF}\<close>: the message does not
  carry the URL in the place of \<open>{URL}\<close>, since the later replacement of \<open>{DIFF}\<close> rewrites it.
\<close>

theorem template_value_rewritten_counterexample:
  "build_message (example_cfg\<lparr>NOTIFY_TEMPLATE := lit ''{URL} changed at {TIME}: {DIFF}''\<rparr>)
     ((example_env (Inl RequestException) (Inl RequestException))
        \<lparr>strftime_now := lit ''2024-01-01 00:00:00''\<rparr>)
     (lit ''https://example.com/{DIFF}'') (lit ''+new line'')
   = lit ''https://example.com/+new line changed at 2024-01-01 00:00:00: +new line'' \<and>
   lit ''https://example.com/+new line changed at 2024-01-01 00:00:00: +new line''
   \<noteq> lit ''https://example.com/{DIFF}'' @ lit '' changed at '' @ lit ''2024-01-01 00:00:00''
       @ lit '': '' @ lit ''+new line''"
  by (simp add: build_message_def lit_def)

text \<open>
  C8, amended. The template of the example, filled with the URL, the time and the diff of the
  example, is the message of the example. In general, a configured template has \<open>{URL}\<close>, then
  \<open>{TIME}\<close>, then \<open>{DIFF}\<close> replaced by its value, each replacement over the result of the one
  before. For a template that is any sequence of placeholders and of texts free of the opening
  brace, and a URL and a time free of it, the message is the template with every placeholder
  replaced by its value.
\<close>

theorem template_placeholders_replaced:
  "build_message (cfg\<lparr>NOTIFY_TEMPLATE := lit ''{URL} changed at {TIME}: {DIFF}''\<rparr>)
     (en\<lparr>strftime_now := lit ''2024-01-01 00:00:00''\<rparr>)
     (lit ''https://example.com'') (lit ''+new line'')
   = lit ''https://example.com changed at 2024-01-01 00:00:00: +new line'' \<and>
   (NOTIFY_TEMPLATE cfg \<noteq> [] \<longrightarrow>
    build_message cfg en url diff_block =
      replace (replace (replace (NOTIFY_TEMPLATE cfg) (lit ''{URL}'') url)
                 (lit ''{TIME}'') (strftime_now en))
        (lit ''{DIFF}'') diff_block) \<and>
   (NOTIFY_TEMPLATE cfg = concat (map (fill None None None) toks) \<and> NOTIFY_TEMPLATE cfg \<noteq> [] \<and>
    list_all no_brace toks \<and> 123 \<notin> set url \<and> 123 \<notin> set (strftime_now en) \<longrightarrow>
    build_message cfg en url diff_block =
      concat (map (fill (Some url) (Some (strftime_now en)) (Some diff_block)) toks))"
proof (intro conjI impI)
  show "build_message (cfg\<lparr>NOTIFY_TEMPLATE := lit ''{URL} changed at {TIME}: {DIFF}''\<rparr>)
     (en\<lparr>strftime_now := lit ''2024-01-01 00:00:00''\<rparr>)
     (lit ''https://example.com'') (lit ''+new line'')
   = lit ''https://example.com changed at 2024-01-01 00:00:00: +new line''"
    by (simp add: build_message_def lit_def)
next
  assume "NOTIFY_TEMPLATE cfg \<noteq> []"
  then show "build_message cfg en url diff_block =
      replace (replace (replace (NOTIFY_TEMPLATE cfg) (lit ''{URL}'') url)
                 (lit ''{TIME}'') (strftime_now en))
        (lit ''{DIFF}'') diff_block"
    by (simp add: build_message_def)
next
  assume h: "NOTIFY_TEMPLATE cfg = concat (map (fill None None None) toks) \<and>
    NOTIFY_TEMPLATE cfg \<noteq> [] \<and>
    list_all no_brace toks \<and> 123 \<notin> set url \<and> 123 \<notin> set (strftime_now en)"
  then have t: "NOTIFY_TEMPLATE cfg = concat (map (fill None None None) toks)"
    and ne: "NOTIFY_TEMPLATE cfg \<noteq> []" and p: "list_all no_brace toks"
    and u: "123 \<notin> set url" and n: "123 \<notin> set (strftime_now en)"
    by blast+
  have "replace (replace (replace (NOTIFY_TEMPLATE cfg) (lit ''{URL}'') url)
                 (lit ''{TIME}'') (strftime_now en))
        (lit ''{DIFF}'') diff_block
      = concat (map (fill (Some url) (Some (strftime_now en)) (Some diff_block)) toks)"
    by (simp only: t fill_url[OF p] fill_time[OF p u] fill_diff[OF p u n])
  with ne show "build_message cfg en url diff_block =
      concat (map (fill (Some url) (Some (strftime_now en)) (Some diff_block)) toks)"
    by (simp add: build_message_def)
qed

theorem template_placeholders_replaced_witness:
  "build_message (example_cfg\<lparr>NOTIFY_TEMPLATE := lit ''{DIFF} at {URL} / {URL} {TIME}''\<rparr>)
     (example_env (Inl RequestException) (Inl RequestException)) example_url (lit ''+a'')
   = lit ''+a at https://example.com / https://example.com 2024-01-01 00:00:00 UTC''"
proof -
  let ?cfg = "example_cfg\<lparr>NOTIFY_TEMPLATE := lit ''{DIFF} at {URL} / {URL} {TIME}''\<rparr>"
  let ?en = "example_env (Inl RequestException) (Inl RequestException)"
  let ?toks = "[DIFF, Text (lit '' at ''), URL, Text (lit '' / ''), URL, Text (lit '' ''), TIME]"
  have h: "NOTIFY_TEMPLATE ?cfg = concat (map (fill None None None) ?toks) \<and>
      NOTIFY_TEMPLATE ?cfg \<noteq> [] \<and> list_all no_brace ?toks \<and>
      123 \<notin> set example_url \<and> 123 \<notin> set (strftime_now ?en)"
    by (simp add: lit_def example_url_def example_env_def)
  from template_placeholders_replaced[where cfg = ?cfg and en = ?en and toks = ?toks
      and url = example_url and diff_block = "lit ''+a''",
      THEN conjunct2, THEN conjunct2, rule_format, OF h]
  show ?thesis
    by (simp add: lit_def example_url_def example_env_def)
qed

text \<open>
  C10. The three replacements run one after the other, \<open>{URL}\<close> first, then \<open>{TIME}\<close>, then
  \<open>{DIFF}\<close>, each on the result of the one before. A URL that contains \<open>{TIME}\<close> or \<open>{DIFF}\<close>
  gets the time or the diff in their place, so the message does not contain the URL; a time
  that contains \<open>{DIFF}\<close> gets the diff, while its \<open>{URL}\<close> stays; a diff that contains
  placeholders keeps them.
\<close>

theorem substitution_is_sequential:
  "build_message (cfg\<lparr>NOTIFY_TEMPLATE := lit ''{URL}''\<rparr>) (en\<lparr>strftime_now := lit ''12:00''\<rparr>)
     (lit ''https://example.com/{TIME}'') (lit ''+x'') = lit ''https://example.com/12:00'' \<and>
   \<not> (\<exists>p q. lit ''https://example.com/12:00'' = p @ lit ''https://example.com/{TIME}'' @ q) \<and>
   build_message (cfg\<lparr>NOTIFY_TEMPLATE := lit ''{URL}''\<rparr>) (en\<lparr>strftime_now := lit ''12:00''\<rparr>)
     (lit ''https://example.com/{DIFF}'') (lit ''+x'') = lit ''https://example.com/+x'' \<and>
   build_message (cfg\<lparr>NOTIFY_TEMPLATE := lit ''{TIME}''\<rparr>)
     (en\<lparr>strftime_now := lit ''{DIFF} {URL}''\<rparr>)
     (lit ''https://example.com'') (lit ''+x'') = lit ''+x {URL}'' \<and>
   build_message (cfg\<lparr>NOTIFY_TEMPLATE := lit ''{DIFF}''\<rparr>) (en\<lparr>strftime_now := lit ''12:00''\<rparr>)
     (lit ''https://example.com'') (lit ''{URL} {TIME}'') = lit ''{URL} {TIME}''"
proof (intro conjI)
  show "build_message (cfg\<lparr>NOTIFY_TEMPLATE := lit ''{URL}''\<rparr>) (en\<lparr>strftime_now := lit ''12:00''\<rparr>)
     (lit ''https://example.com/{TIME}'') (lit ''+x'') = lit ''https://example.com/12:00''"
    by (simp add: build_message_def lit_def)
  show "build_message (cfg\<lparr>NOTIFY_TEMPLATE := lit ''{URL}''\<rparr>) (en\<lparr>strftime_now := lit ''12:00''\<rparr>)
     (lit ''https://example.com/{DIFF}'') (lit ''+x'') = lit ''https://example.com/+x''"
    by (simp add: build_message_def lit_def)
  show "build_message (cfg\<lparr>NOTIFY_TEMPLATE := lit ''{TIME}''\<rparr>)
     (en\<lparr>strftime_now := lit ''{DIFF} {URL}''\<rparr>)
     (lit ''https://example.com'') (lit ''+x'') = lit ''+x {URL}''"
    by (simp add: build_message_def lit_def)
  show "build_message (cfg\<lparr>NOTIFY_TEMPLATE := lit ''{DIFF}''\<rparr>) (en\<lparr>strftime_now := lit ''12:00''\<rparr>)
     (lit ''https://example.com'') (lit ''{URL} {TIME}'') = lit ''{URL} {TIME}''"
    by (simp add: build_message_def lit_def)
  show "\<not> (\<exists>p q. lit ''https://example.com/12:00'' = p @ lit ''https://example.com/{TIME}'' @ q)"
  proof
    assume "\<exists>p q. lit ''https://example.com/12:00'' = p @ lit ''https://example.com/{TIME}'' @ q"
    then obtain p q where
      e: "lit ''https://example.com/12:00'' = p @ lit ''https://example.com/{TIME}'' @ q"
      by blast
    have "length (lit ''https://example.com/12:00'')
        = length (p @ lit ''https://example.com/{TIME}'' @ q)"
      by (simp only: e)
    then have "length (lit ''https://example.com/12:00'')
        = length p + length (lit ''https://example.com/{TIME}'') + length q"
      by simp
    moreover have "length (lit ''https://example.com/12:00'') = 25"
      "length (lit ''https://example.com/{TIME}'') = 26"
      by (simp_all add: lit_def)
    ultimately show False
      by simp
  qed
qed

section \<open>Lines\<close>

lemma one_line_simps [simp]:
  "one_line []" "one_line (c # l) \<longleftrightarrow> \<not> is_linebreak c \<and> one_line l"
  "one_line (l @ m) \<longleftrightarrow> one_line l \<and> one_line m"
  by (auto simp: one_line_def)

lemma splitlines_from_one_line:
  "one_line cur \<Longrightarrow> list_all one_line (splitlines_from cur s)"
  by (induction cur s rule: splitlines_from.induct) auto

lemma splitlines_one_line: "list_all one_line (splitlines s)"
  by (simp add: splitlines_def splitlines_from_one_line)

lemma splitlines_from_line:
  "one_line l \<Longrightarrow> splitlines_from cur (l @ r) = splitlines_from (cur @ l) r"
proof (induction l arbitrary: cur)
  case Nil
  then show ?case by simp
next
  case (Cons c l)
  then have c: "\<not> is_linebreak c" and l: "one_line l"
    by simp_all
  from c have c13: "c \<noteq> 13"
    by (auto simp: is_linebreak_def)
  show ?case
  proof (cases "l @ r")
    case Nil
    with c show ?thesis by simp
  next
    case (Cons d cs)
    have "splitlines_from cur ((c # l) @ r) = splitlines_from (cur @ [c]) (l @ r)"
      using c c13 Cons by simp
    also have "\<dots> = splitlines_from ((cur @ [c]) @ l) r"
      using Cons.IH[OF l] .
    finally show ?thesis by simp
  qed
qed

lemma splitlines_from_lf: "splitlines_from cur (10 # r) = cur # splitlines_from [] r"
  by (cases r) (simp_all add: is_linebreak_def)

lemma length_splitlines_from_join:
  "list_all one_line ls \<Longrightarrow> ls \<noteq> [] \<Longrightarrow>
   length (splitlines_from cur (str_join [10] ls)) \<le> length ls"
proof (induction ls arbitrary: cur)
  case Nil
  then show ?case by simp
next
  case (Cons x ls)
  then have x: "one_line x" and r: "list_all one_line ls"
    by simp_all
  show ?case
  proof (cases ls)
    case Nil
    have "splitlines_from cur x = splitlines_from (cur @ x) []"
      using splitlines_from_line[OF x, of cur "[]"] by simp
    with Nil show ?thesis by simp
  next
    case (Cons y ys)
    have "splitlines_from cur (str_join [10] (x # y # ys))
        = splitlines_from (cur @ x) (10 # str_join [10] (y # ys))"
      using splitlines_from_line[OF x, of cur "10 # str_join [10] (y # ys)"] by simp
    also have "\<dots> = (cur @ x) # splitlines_from [] (str_join [10] (y # ys))"
      by (rule splitlines_from_lf)
    finally have "length (splitlines_from cur (str_join [10] (x # y # ys)))
        = Suc (length (splitlines_from [] (str_join [10] (y # ys))))"
      by simp
    moreover have "length (splitlines_from [] (str_join [10] (y # ys))) \<le> length (y # ys)"
      using Cons.IH[of "[]"] r Cons by simp
    ultimately show ?thesis
      using Cons by simp
  qed
qed

lemma length_splitlines_join:
  "list_all one_line ls \<Longrightarrow> length (splitlines (str_join [10] ls)) \<le> length ls"
  by (cases "ls = []") (simp_all add: splitlines_def length_splitlines_from_join)

section \<open>The rendered diff\<close>

lemma list_all_take: "list_all P xs \<Longrightarrow> list_all P (take n xs)"
  by (auto simp: list_all_iff dest: in_set_takeD)

lemma splitlines_placeholder: "splitlines placeholder = [placeholder]"
  by (simp add: splitlines_def placeholder_def lit_def is_linebreak_def)

text \<open>
  C4. \<open>difflib\<close> adds no line boundary: given lines without one, every line of the diff is
  without one. Then, for every stored excerpt and every new text, the rendered diff that
  \<open>main\<close> hands to \<open>build_message\<close> and the notifier has at most 60 lines; it is the
  placeholder when the diff is empty, and the first 60 lines of the diff otherwise.
\<close>

theorem rendered_diff_is_bounded:
  assumes "\<forall>a b n. list_all one_line a \<and> list_all one_line b
             \<longrightarrow> list_all one_line (unified_diff lb a b n)"
  shows "length (splitlines (pretty_diff lb excerpt content)) \<le> 60 \<and>
         (unified_diff lb (splitlines excerpt) (splitlines content) 5 = []
            \<longrightarrow> pretty_diff lb excerpt content = placeholder) \<and>
         (unified_diff lb (splitlines excerpt) (splitlines content) 5 \<noteq> []
            \<longrightarrow> pretty_diff lb excerpt content
                = str_join [10] (take 60 (unified_diff lb (splitlines excerpt) (splitlines content) 5)))"
proof -
  let ?d = "unified_diff lb (splitlines excerpt) (splitlines content) 5"
  have d: "list_all one_line ?d"
    using assms splitlines_one_line by blast
  show ?thesis
  proof (cases "?d = []")
    case True
    then have "pretty_diff lb excerpt content = placeholder"
      by (simp add: pretty_diff_def)
    with True show ?thesis
      by (simp add: splitlines_placeholder)
  next
    case False
    then have p: "pretty_diff lb excerpt content = str_join [10] (take 60 ?d)"
      by (simp add: pretty_diff_def)
    have "length (splitlines (str_join [10] (take 60 ?d))) \<le> length (take 60 ?d)"
      using d by (intro length_splitlines_join list_all_take)
    then have "length (splitlines (str_join [10] (take 60 ?d))) \<le> 60"
      by simp
    with p False show ?thesis
      by simp
  qed
qed

lemma example_lib_diff_one_line:
  "\<forall>a b n. list_all one_line a \<and> list_all one_line b
      \<longrightarrow> list_all one_line (unified_diff example_lib a b n)"
  by (auto simp: example_lib_def lit_def is_linebreak_def list_all_iff)

lemma many_lines_simps:
  "many_lines 0 = []" "many_lines (Suc 0) = [97]"
  "many_lines (Suc (Suc n)) = 97 # 10 # many_lines (Suc n)"
  by (simp_all add: many_lines_def)

lemma many_lines_Suc: "\<exists>r. many_lines (Suc n) = 97 # r"
  by (cases n) (simp_all add: many_lines_simps)

lemma splitlines_from_many_lines:
  "splitlines_from [] (many_lines (Suc n)) = replicate (Suc n) [97]"
proof (induction n)
  case 0
  then show ?case by (simp add: many_lines_simps is_linebreak_def)
next
  case (Suc n)
  have "splitlines_from [] (many_lines (Suc (Suc n)))
      = splitlines_from [97] (10 # many_lines (Suc n))"
    by (simp add: many_lines_simps is_linebreak_def)
  also have "\<dots> = [97] # splitlines_from [] (many_lines (Suc n))"
    by (rule splitlines_from_lf)
  finally show ?case
    using Suc by simp
qed

lemma splitlines_many_lines: "splitlines (many_lines n) = replicate n [97]"
  by (cases n) (simp_all add: splitlines_def splitlines_from_many_lines many_lines_simps)

lemma example_diff_length:
  "length (unified_diff example_lib (splitlines (lit ''old'')) (splitlines (many_lines 100)) 5) = 103"
proof -
  have a: "splitlines (lit ''old'') = [lit ''old'']"
    by (simp add: splitlines_def lit_def is_linebreak_def)
  have "length [lit ''old''] \<noteq> length (replicate 100 [97::nat])"
    by simp
  then have "[lit ''old''] \<noteq> replicate 100 [97]"
    by (metis (no_types))
  then show ?thesis
    by (simp add: a splitlines_many_lines example_lib_def)
qed

theorem rendered_diff_is_bounded_witness:
  "length (unified_diff example_lib (splitlines (lit ''old'')) (splitlines (many_lines 100)) 5) = 103 \<and>
   length (splitlines (pretty_diff example_lib (lit ''old'') (many_lines 100))) \<le> 60"
  using rendered_diff_is_bounded[OF example_lib_diff_one_line, of "lit ''old''" "many_lines 100"]
    example_diff_length
  by simp

lemma sub_ws_newline_many_lines: "sub_ws_newline (many_lines n) = many_lines n"
proof (induction n rule: less_induct)
  case (less n)
  show ?case
  proof (cases n)
    case 0
    then show ?thesis by (simp add: many_lines_simps)
  next
    case (Suc m)
    show ?thesis
    proof (cases m)
      case 0
      with Suc show ?thesis by (simp add: many_lines_simps isspace_def)
    next
      case (Suc k)
      obtain r where r: "many_lines (Suc k) = 97 # r"
        using many_lines_Suc by blast
      have ih: "sub_ws_newline (many_lines (Suc k)) = many_lines (Suc k)"
        using less[of "Suc k"] Suc \<open>n = Suc m\<close> by simp
      have "sub_ws_newline (many_lines (Suc (Suc k)))
          = 97 # 10 # sub_ws_newline (many_lines (Suc k))"
        by (simp add: many_lines_simps r isspace_def)
      with ih Suc \<open>n = Suc m\<close> show ?thesis
        by (simp add: many_lines_simps)
    qed
  qed
qed

lemma last_many_lines: "last (many_lines (Suc n)) = 97"
proof (induction n)
  case 0
  then show ?case by (simp add: many_lines_simps)
next
  case (Suc n)
  obtain r where r: "many_lines (Suc n) = 97 # r"
    using many_lines_Suc by blast
  with Suc show ?case by (simp add: many_lines_simps)
qed

lemma strip_many_lines: "strip (many_lines n) = many_lines n"
proof (cases n)
  case 0
  then show ?thesis by (simp add: many_lines_simps strip_def)
next
  case (Suc m)
  obtain r where r: "many_lines (Suc m) = 97 # r"
    using many_lines_Suc by blast
  have d: "dropWhile isspace (many_lines (Suc m)) = many_lines (Suc m)"
    by (simp add: r isspace_def)
  have "many_lines (Suc m) = butlast (many_lines (Suc m)) @ [last (many_lines (Suc m))]"
    using r by simp
  then obtain b where b: "many_lines (Suc m) = b @ [97]"
    by (simp add: last_many_lines)
  have "dropWhile isspace (rev (b @ [97])) = rev (b @ [97])"
    by (simp add: isspace_def)
  then have "dropWhile isspace (rev (many_lines (Suc m))) = rev (many_lines (Suc m))"
    by (simp only: b)
  with d Suc show ?thesis
    by (simp add: strip_def)
qed

section \<open>A change without a diff\<close>

lemma load_state_save_state: "load_state (save_state s w) = s"
  by (simp add: load_state_def save_state_def)

lemma outbox_save_state: "outbox (save_state s w) = outbox w"
  by (simp add: save_state_def)

lemma excerpt_differs:
  assumes "400 < length (splitlines prev)"
  shows "str_join [10] (take 400 (splitlines prev)) \<noteq> prev"
proof
  assume e: "str_join [10] (take 400 (splitlines prev)) = prev"
  have "length (splitlines (str_join [10] (take 400 (splitlines prev))))
      \<le> length (take 400 (splitlines prev))"
    by (intro length_splitlines_join list_all_take splitlines_one_line)
  with e have "length (splitlines prev) \<le> length (take 400 (splitlines prev))"
    by simp
  with assms show False
    by simp
qed

text \<open>
  C9. A first run records a content \<open>prev\<close> of more than 400 lines: the stored excerpt is its
  first 400 lines, the stored hash is the digest of all of it. A second run fetches a text
  equal to that excerpt. The two texts differ, and so do their digests (no collision is
  assumed for this pair), so a change is detected and notified; the stored excerpt and the new
  text have the same lines, on which \<open>difflib\<close> returns nothing, so the message carries the
  placeholder.
\<close>

theorem placeholder_on_truncated_content:
  assumes "TARGET_URL cfg = Some url" and "url \<noteq> []"
    and "\<forall>xs n. unified_diff lb xs xs n = []"
    and "400 < length (splitlines prev)"
    and "fetch_content cfg lb en1 url (etag (load_state w0)) (last_modified (load_state w0))
           = Inr (Some prev, etg1, lm1, False)"
    and "sha256 lb prev = Inr hp"
    and "Some hp \<noteq> last_hash (load_state w0)"
    and "w1 = snd (main cfg lb en1 w0)"
    and "excerpt = str_join [10] (take 400 (splitlines prev))"
    and "fetch_content cfg lb en2 url etg1 lm1 = Inr (Some excerpt, etg2, lm2, False)"
    and "sha256 lb excerpt = Inr he"
    and "he \<noteq> hp"
  shows "last_hash (load_state w1) = Some hp \<and>
         last_excerpt (load_state w1) = excerpt \<and>
         excerpt \<noteq> prev \<and>
         unified_diff lb (splitlines (last_excerpt (load_state w1))) (splitlines excerpt) 5 = [] \<and>
         pretty_diff lb (last_excerpt (load_state w1)) excerpt = placeholder \<and>
         fst (main cfg lb en2 w1) = Inr () \<and>
         last_hash (load_state (snd (main cfg lb en2 w1))) = Some he \<and>
         outbox (snd (main cfg lb en2 w1)) =
           outbox w1 @
           (if NTFY_TOPIC cfg = [] \<or> has_surrogate (build_message cfg en2 url placeholder)
            then []
            else [(NTFY_SERVER cfg @ lit ''/'' @ NTFY_TOPIC cfg,
                   [(lit ''Title'', NOTIFY_TITLE cfg), (lit ''Tags'', lit ''bell''),
                    (lit ''Priority'', lit ''4'')],
                   build_message cfg en2 url placeholder)])"
proof -
  have m1: "main cfg lb en1 w0 =
           (Inr (),
            save_state ((load_state w0)\<lparr>last_hash := Some hp,
                last_excerpt := str_join [10] (take 400 (splitlines prev)),
                updated_at := Some (time_changed en1),
                etag := etg1, last_modified := lm1, last_ok_run := Some (time_done en1)\<rparr>)
              (send_ntfy cfg en1 (NOTIFY_TITLE cfg)
                 (build_message cfg en1 url (pretty_diff lb (last_excerpt (load_state w0)) prev)) w0))"
    using assms(1,2,5,6,7) by (rule main_run_changed)
  have s1: "load_state w1 = (load_state w0)\<lparr>last_hash := Some hp,
                last_excerpt := excerpt,
                updated_at := Some (time_changed en1),
                etag := etg1, last_modified := lm1, last_ok_run := Some (time_done en1)\<rparr>"
    by (simp add: assms(8,9) m1 load_state_save_state)
  have h: "last_hash (load_state w1) = Some hp"
    and x: "last_excerpt (load_state w1) = excerpt"
    and v: "etag (load_state w1) = etg1" "last_modified (load_state w1) = lm1"
    by (simp_all add: s1)
  have f2: "fetch_content cfg lb en2 url (etag (load_state w1)) (last_modified (load_state w1))
           = Inr (Some excerpt, etg2, lm2, False)"
    by (simp add: v assms(10))
  have c2: "Some he \<noteq> last_hash (load_state w1)"
    by (simp add: h assms(12))
  have d: "unified_diff lb (splitlines excerpt) (splitlines excerpt) 5 = []"
    using assms(3) by simp
  have p: "pretty_diff lb excerpt excerpt = placeholder"
    by (simp add: pretty_diff_def d)
  have m2: "main cfg lb en2 w1 =
           (Inr (),
            save_state ((load_state w1)\<lparr>last_hash := Some he,
                last_excerpt := str_join [10] (take 400 (splitlines excerpt)),
                updated_at := Some (time_changed en2),
                etag := etg2, last_modified := lm2, last_ok_run := Some (time_done en2)\<rparr>)
              (send_ntfy cfg en2 (NOTIFY_TITLE cfg)
                 (build_message cfg en2 url (pretty_diff lb (last_excerpt (load_state w1)) excerpt)) w1))"
    using assms(1,2) f2 assms(11) c2 by (rule main_run_changed)
  have n: "excerpt \<noteq> prev"
    unfolding assms(9) using assms(4) by (rule excerpt_differs)
  show ?thesis
    by (simp add: h x n d p m2 load_state_save_state outbox_save_state outbox_send_ntfy)
qed

lemma example_fetch_many_lines:
  "fetch_content example_cfg example_lib (example_env (Inr (page 200 (many_lines n))) posted)
     example_url e l = Inr (Some (many_lines n), e, l, False)"
  by (simp add: fetch_content_def example_cfg_def example_env_def example_lib_def page_def
      raise_for_status_def select_text_def remove_ignored_def
      sub_ws_newline_many_lines strip_many_lines)

lemma many_lines_differ: "many_lines 400 \<noteq> many_lines 401"
proof
  assume "many_lines 400 = many_lines 401"
  then have "splitlines (many_lines 400) = splitlines (many_lines 401)"
    by simp
  then have "length (replicate 400 [97::nat]) = length (replicate 401 [97::nat])"
    by (simp only: splitlines_many_lines)
  then show False
    by simp
qed

lemma set_str_join:
  "\<forall>x \<in> set xs. set x \<subseteq> A \<Longrightarrow> set sep \<subseteq> A \<Longrightarrow> set (str_join sep xs) \<subseteq> A"
  by (induction sep xs rule: str_join.induct) auto

lemma sha256_many_lines: "sha256 example_lib (many_lines n) = Inr (many_lines n)"
proof -
  have "set (many_lines n) \<subseteq> {10, 97}"
    unfolding many_lines_def by (rule set_str_join) auto
  then have "c = 10 \<or> c = 97" if "c \<in> set (many_lines n)" for c
    using that by blast
  then have "\<not> has_surrogate (many_lines n)"
    by (fastforce simp: has_surrogate_def list_ex_iff)
  then show ?thesis
    by (simp add: sha256_def example_lib_def)
qed

theorem placeholder_on_truncated_content_witness:
  "400 < length (splitlines (many_lines 401)) \<and>
   many_lines 400 = str_join [10] (take 400 (splitlines (many_lines 401))) \<and>
   many_lines 400 \<noteq> many_lines 401 \<and>
   last_excerpt (load_state (snd (main example_cfg example_lib
      (example_env (Inr (page 200 (many_lines 401))) (Inl RequestException)) empty_world)))
     = many_lines 400 \<and>
   pretty_diff example_lib
     (last_excerpt (load_state (snd (main example_cfg example_lib
        (example_env (Inr (page 200 (many_lines 401))) (Inl RequestException)) empty_world))))
     (many_lines 400) = placeholder \<and>
   fst (main example_cfg example_lib
      (example_env (Inr (page 200 (many_lines 400))) (Inl RequestException))
      (snd (main example_cfg example_lib
        (example_env (Inr (page 200 (many_lines 401))) (Inl RequestException)) empty_world)))
     = Inr () \<and>
   last_hash (load_state (snd (main example_cfg example_lib
      (example_env (Inr (page 200 (many_lines 400))) (Inl RequestException))
      (snd (main example_cfg example_lib
        (example_env (Inr (page 200 (many_lines 401))) (Inl RequestException)) empty_world)))))
     = Some (many_lines 400)"
proof -
  have t: "TARGET_URL example_cfg = Some example_url"
    by (simp add: example_cfg_def)
  have d: "\<forall>xs n. unified_diff example_lib xs xs n = []"
    by (simp add: example_lib_def)
  have l: "400 < length (splitlines (many_lines 401))"
    by (simp add: splitlines_many_lines)
  have c: "Some (many_lines 401) \<noteq> last_hash (load_state empty_world)"
    by (simp add: load_state_def empty_world_def default_state_def)
  have "take 400 (splitlines (many_lines 401)) = replicate 400 [97]"
    by (simp add: splitlines_many_lines)
  then have e: "many_lines 400 = str_join [10] (take 400 (splitlines (many_lines 401)))"
    by (simp add: many_lines_def)
  note r = placeholder_on_truncated_content
    [OF t example_url_nonempty d l
        example_fetch_many_lines[of 401 "Inl RequestException"] sha256_many_lines c refl e
        example_fetch_many_lines[of 400 "Inl RequestException"] sha256_many_lines
        many_lines_differ]
  from r have
    "last_excerpt (load_state (snd (main example_cfg example_lib
        (example_env (Inr (page 200 (many_lines 401))) (Inl RequestException)) empty_world)))
       = many_lines 400"
    "pretty_diff example_lib
       (last_excerpt (load_state (snd (main example_cfg example_lib
          (example_env (Inr (page 200 (many_lines 401))) (Inl RequestException)) empty_world))))
       (many_lines 400) = placeholder"
    "fst (main example_cfg example_lib
        (example_env (Inr (page 200 (many_lines 400))) (Inl RequestException))
        (snd (main example_cfg example_lib
          (example_env (Inr (page 200 (many_lines 401))) (Inl RequestException)) empty_world)))
       = Inr ()"
    "last_hash (load_state (snd (main example_cfg example_lib
        (example_env (Inr (page 200 (many_lines 400))) (Inl RequestException))
        (snd (main example_cfg example_lib
          (example_env (Inr (page 200 (many_lines 401))) (Inl RequestException)) empty_world)))))
       = Some (many_lines 400)"
    by blast+
  with l e many_lines_differ show ?thesis
    by (simp only: simp_thms)
qed

end
